theory Spec2Isabelle
  imports Main "HOL-Library.Multiset"
begin

section \<open>JavaScript values and strings\<close>

text \<open>
  A field of a JavaScript object that the task store reads as text is absent
  (\<open>undefined\<close>), \<open>null\<close> or a string. Strings are lists of code units; the
  model keeps the code units below 256.
\<close>

datatype jsstr = Undefined | Null | Str string

text \<open>JavaScript truthiness: \<open>undefined\<close>, \<open>null\<close> and the empty string are falsy.\<close>

fun truthy :: "jsstr \<Rightarrow> bool" where
  "truthy Undefined = False"
| "truthy Null = False"
| "truthy (Str s) = (s \<noteq> [])"

text \<open>\<open>a || b\<close> on such a field.\<close>

definition js_or :: "jsstr \<Rightarrow> jsstr \<Rightarrow> jsstr" where
  "js_or a b = (if truthy a then a else b)"

text \<open>
  \<open>String.prototype.trim\<close> removes white space and line terminators from both ends:
  tab, line feed, vertical tab, form feed, carriage return, space and no-break space
  are the ones below 256.
\<close>

definition is_ws :: "char \<Rightarrow> bool" where
  "is_ws c = (c \<in> set [CHR 0x09, CHR 0x0A, CHR 0x0B, CHR 0x0C, CHR 0x0D, CHR 0x20, CHR 0xA0])"

definition trim :: "string \<Rightarrow> string" where
  "trim s = rev (dropWhile is_ws (rev (dropWhile is_ws s)))"

text \<open>\<open>s.split('T')[0]\<close>: the part of \<open>s\<close> before the first \<open>T\<close>.\<close>

definition split_T_0 :: "string \<Rightarrow> string" where
  "split_T_0 s = takeWhile (\<lambda>c. c \<noteq> CHR ''T'') s"

text \<open>Decimal rendering of an integer, as a template literal does it.\<close>

definition digit :: "nat \<Rightarrow> char" where
  "digit d = char_of (48 + d)"

fun show_nat :: "nat \<Rightarrow> string" where
  "show_nat n = (if n < 10 then [digit n] else show_nat (n div 10) @ [digit (n mod 10)])"

declare show_nat.simps [simp del]

definition show_int :: "int \<Rightarrow> string" where
  "show_int i = (if i < 0 then CHR ''-'' # show_nat (nat (- i)) else show_nat (nat i))"

section \<open>Objects exchanged with the task store\<close>

text \<open>
  The payload of \<open>createTask\<close> and \<open>updateTask\<close>. The last field stands for an
  \<open>updated_at\<close> key a caller may put on the payload.
\<close>

record task_payload =
  title :: jsstr
  description :: jsstr
  due_date :: jsstr
  priority :: jsstr
  status :: jsstr
  payload_updated_at :: jsstr

text \<open>
  A task object in the store's field vocabulary, as \<open>createTask\<close> resolves it and
  as \<open>convertToProjectFlowFormat\<close> reads it.
\<close>

record task_object =
  o_task_id :: int
  o_title :: jsstr
  o_description :: jsstr
  o_due_date :: jsstr
  o_priority :: jsstr
  o_status :: jsstr
  o_created_at :: jsstr
  o_updated_at :: jsstr

text \<open>A task in the ProjectFlow (localStorage) vocabulary.\<close>

record projectflow_task =
  pf_id :: string
  pf_title :: jsstr
  pf_description :: jsstr
  projectId :: string
  pf_priority :: jsstr
  pf_status :: jsstr
  dueDate :: jsstr
  createdDate :: string

section \<open>Sync adapter: format conversion (integration.js)\<close>

definition convertToDbFormat :: "projectflow_task \<Rightarrow> task_payload" where
  "convertToDbFormat projectFlowTask =
     \<lparr> title = pf_title projectFlowTask,
       description = js_or (pf_description projectFlowTask) (Str ''''),
       due_date = js_or (dueDate projectFlowTask) Null,
       priority = js_or (pf_priority projectFlowTask) (Str ''medium''),
       status = (if pf_status projectFlowTask = Str ''completed''
                 then Str ''completed'' else Str ''pending''),
       payload_updated_at = Undefined \<rparr>"

text \<open>
  \<open>today_iso\<close> is what \<open>new Date().toISOString()\<close> reads when the record has no
  \<open>created_at\<close>.
\<close>

definition convertToProjectFlowFormat :: "string \<Rightarrow> task_object \<Rightarrow> projectflow_task" where
  "convertToProjectFlowFormat today_iso dbTask =
     \<lparr> pf_id = ''task-'' @ show_int (o_task_id dbTask),
       pf_title = o_title dbTask,
       pf_description = js_or (o_description dbTask) (Str ''''),
       projectId = ''default-project'',
       pf_priority = o_priority dbTask,
       pf_status = (if o_status dbTask = Str ''completed'' then Str ''completed''
                    else if o_status dbTask = Str ''pending'' then Str ''todo''
                    else Str ''in-progress''),
       dueDate = o_due_date dbTask,
       createdDate = (case o_created_at dbTask of
                        Str s \<Rightarrow> (if s \<noteq> [] then split_T_0 s else split_T_0 today_iso)
                      | _ \<Rightarrow> split_T_0 today_iso) \<rparr>"

section \<open>The tasks table (schema.sql)\<close>

text \<open>
  One row of \<open>tasks\<close>. A nullable column is an \<open>option\<close> (\<open>None\<close> is SQL NULL);
  \<open>title\<close> is \<open>NOT NULL\<close>. \<open>CURRENT_TIMESTAMP\<close> is the text
  \<open>YYYY-MM-DD HH:MM:SS\<close>, whose text order is the order of the instants: the model
  keeps the instant, in whole seconds. A due date is kept as the text that was bound.
\<close>

record task_row =
  task_id :: int
  row_title :: string
  row_description :: "string option"
  row_due_date :: "string option"
  row_priority :: "string option"
  row_status :: "string option"
  created_at :: nat
  updated_at :: nat

text \<open>
  The two \<open>CHECK\<close> constraints. A \<open>CHECK\<close> whose expression is NULL is not
  violated, so a NULL priority or status passes.
\<close>

definition check_priority :: "string option \<Rightarrow> bool" where
  "check_priority p = (case p of None \<Rightarrow> True | Some s \<Rightarrow> s \<in> set [''high'', ''medium'', ''low''])"

definition check_status :: "string option \<Rightarrow> bool" where
  "check_status p = (case p of None \<Rightarrow> True | Some s \<Rightarrow> s \<in> set [''pending'', ''completed''])"

definition row_ok :: "task_row \<Rightarrow> bool" where
  "row_ok r = (check_priority (row_priority r) \<and> check_status (row_status r))"

text \<open>
  The trigger \<open>update_tasks_updated_at\<close>, run after the update of a row with
  \<open>NEW.task_id = new_id\<close>:
  \<open>UPDATE tasks SET updated_at = CURRENT_TIMESTAMP WHERE task_id = NEW.task_id\<close>.
\<close>

definition update_tasks_updated_at :: "nat \<Rightarrow> int \<Rightarrow> task_row list \<Rightarrow> task_row list" where
  "update_tasks_updated_at now new_id rs =
     map (\<lambda>r. if task_id r = new_id then r\<lparr>updated_at := now\<rparr> else r) rs"


text \<open>
  The \<open>LIKE\<close> operator of SQLite, pattern first: \<open>%\<close> matches any run of
  characters, \<open>_\<close> any one character, and any other character matches itself, the
  letters A to Z without regard to case.
\<close>

definition ascii_lower :: "char \<Rightarrow> char" where
  "ascii_lower c = (if 65 \<le> (of_char c :: nat) \<and> (of_char c :: nat) \<le> 90
                    then char_of ((of_char c :: nat) + 32) else c)"

fun like_match :: "string \<Rightarrow> string \<Rightarrow> bool" where
  "like_match [] s = (s = [])"
| "like_match (p # ps) [] = (p = CHR ''%'' \<and> like_match ps [])"
| "like_match (p # ps) (c # cs) =
     (if p = CHR ''%'' then like_match ps (c # cs) \<or> like_match (p # ps) cs
      else (p = CHR ''_'' \<or> ascii_lower p = ascii_lower c) \<and> like_match ps cs)"

text \<open>\<open>column LIKE ?\<close>: NULL, hence not selected, on a NULL column.\<close>

definition sql_like :: "string \<Rightarrow> string option \<Rightarrow> bool" where
  "sql_like pat v = (case v of None \<Rightarrow> False | Some s \<Rightarrow> like_match pat s)"

text \<open>
  \<open>ORDER BY created_at DESC\<close>. SQL leaves the order of rows with equal
  \<open>created_at\<close> open; the model fixes one such order (the later row first).
\<close>

definition order_by_created_at_desc :: "task_row list \<Rightarrow> task_row list" where
  "order_by_created_at_desc rs = rev (sort_key created_at rs)"



section \<open>The task store (database.js)\<close>

text \<open>
  The \<open>TaskDatabase\<close> object with the file it is connected to: \<open>db_opened\<close> is
  \<open>this.db !== null\<close>, \<open>tasks\<close> the table in rowid order, \<open>sqlite_sequence\<close> the
  largest rowid \<open>AUTOINCREMENT\<close> has handed out.
\<close>

record task_database =
  db_opened :: bool
  isConnected :: bool
  tasks :: "task_row list"
  sqlite_sequence :: int

definition new_database :: task_database where
  "new_database = \<lparr> db_opened = False, isConnected = False, tasks = [], sqlite_sequence = 0 \<rparr>"

datatype error =
    NotConnected
  | ValidationFailed string
  | NotFound int
  | NoValidFields
  | SearchTermRequired
  | TypeError
  | SqliteConstraint

text \<open>
  \<open>connect\<close>: every statement of the schema is \<open>IF NOT EXISTS\<close>, so an existing
  table is left as it is. Failures of the file system are not modelled.
\<close>

definition connect :: "task_database \<Rightarrow> task_database" where
  "connect st = st\<lparr> db_opened := True, isConnected := True \<rparr>"


subsection \<open>validateTask\<close>

text \<open>The five conditions of \<open>validateTask\<close>, in the source's order.\<close>

definition title_missing :: "jsstr \<Rightarrow> bool" where
  \<comment> \<open>\<open>!task.title || task.title.trim().length === 0\<close>\<close>
  "title_missing t = (case t of Str s \<Rightarrow> s = [] \<or> length (trim s) = 0 | _ \<Rightarrow> True)"

definition title_too_long :: "jsstr \<Rightarrow> bool" where
  \<comment> \<open>\<open>task.title && task.title.length > 255\<close>\<close>
  "title_too_long t = (case t of Str s \<Rightarrow> s \<noteq> [] \<and> length s > 255 | _ \<Rightarrow> False)"

definition priority_invalid :: "jsstr \<Rightarrow> bool" where
  \<comment> \<open>\<open>task.priority && !['high', 'medium', 'low'].includes(task.priority)\<close>\<close>
  "priority_invalid p =
     (case p of Str s \<Rightarrow> s \<noteq> [] \<and> s \<notin> set [''high'', ''medium'', ''low''] | _ \<Rightarrow> False)"

definition status_invalid :: "jsstr \<Rightarrow> bool" where
  \<comment> \<open>\<open>task.status && !['pending', 'completed'].includes(task.status)\<close>\<close>
  "status_invalid p =
     (case p of Str s \<Rightarrow> s \<noteq> [] \<and> s \<notin> set [''pending'', ''completed''] | _ \<Rightarrow> False)"

text \<open>
  \<open>date_ok s\<close> stands for \<open>!isNaN(Date.parse(s))\<close>, which the JavaScript engine
  decides.
\<close>

definition due_date_invalid :: "(string \<Rightarrow> bool) \<Rightarrow> jsstr \<Rightarrow> bool" where
  \<comment> \<open>\<open>task.due_date && isNaN(Date.parse(task.due_date))\<close>\<close>
  "due_date_invalid date_ok d = (case d of Str s \<Rightarrow> s \<noteq> [] \<and> \<not> date_ok s | _ \<Rightarrow> False)"

definition validateTask :: "(string \<Rightarrow> bool) \<Rightarrow> task_payload \<Rightarrow> string list" where
  "validateTask date_ok task =
     (if title_missing (title task) then [''Title is required''] else []) @
     (if title_too_long (title task) then [''Title must be less than 255 characters''] else []) @
     (if priority_invalid (priority task) then [''Priority must be high, medium, or low''] else []) @
     (if status_invalid (status task) then [''Status must be pending or completed''] else []) @
     (if due_date_invalid date_ok (due_date task) then [''Due date must be a valid date''] else [])"

text \<open>\<open>Array.prototype.join\<close>.\<close>

fun join :: "string \<Rightarrow> string list \<Rightarrow> string" where
  "join sep [] = []"
| "join sep [x] = x"
| "join sep (x # y # ys) = x @ sep @ join sep (y # ys)"

definition validation_error :: "string list \<Rightarrow> error" where
  "validation_error validationErrors =
     ValidationFailed (''Validation failed: '' @ join '', '' validationErrors)"

subsection \<open>createTask\<close>

text \<open>A parameter bound to a statement: \<open>null\<close> is NULL.\<close>

fun bind :: "jsstr \<Rightarrow> string option" where
  "bind (Str s) = Some s"
| "bind Null = None"
| "bind Undefined = None"

text \<open>\<open>AUTOINCREMENT\<close>: one more than the largest rowid ever used.\<close>

definition next_rowid :: "task_database \<Rightarrow> int" where
  "next_rowid st = fold max (map task_id (tasks st)) (sqlite_sequence st) + 1"

text \<open>
  \<open>INSERT INTO tasks (title, description, due_date, priority, status) VALUES (?, ?, ?, ?, ?)\<close>
  at the instant \<open>now\<close>: both timestamps take their default \<open>CURRENT_TIMESTAMP\<close>.
\<close>

definition sql_insert ::
  "nat \<Rightarrow> string \<Rightarrow> string option \<Rightarrow> string option \<Rightarrow> string option \<Rightarrow> string option
     \<Rightarrow> task_database \<Rightarrow> error + (int \<times> task_database)" where
  "sql_insert now t d dd p s st =
     (let r = \<lparr> task_id = next_rowid st, row_title = t, row_description = d,
                 row_due_date = dd, row_priority = p, row_status = s,
                 created_at = now, updated_at = now \<rparr>
      in if \<not> row_ok r then Inl SqliteConstraint
         else Inr (task_id r, st\<lparr> tasks := tasks st @ [r], sqlite_sequence := task_id r \<rparr>))"

text \<open>
  \<open>now\<close> is the instant of the insert; \<open>iso1\<close> and \<open>iso2\<close> are the two readings
  \<open>new Date().toISOString()\<close> of the callback. The resolved object is
  \<open>{task_id: this.lastID, ...task, created_at: ..., updated_at: ...}\<close>.
\<close>

definition createTask ::
  "(string \<Rightarrow> bool) \<Rightarrow> nat \<Rightarrow> string \<Rightarrow> string \<Rightarrow> task_payload \<Rightarrow> task_database
     \<Rightarrow> (error + task_object) \<times> task_database" where
  "createTask date_ok now iso1 iso2 task st =
     (if \<not> isConnected st then (Inl NotConnected, st)
      else let validationErrors = validateTask date_ok task in
        if length validationErrors > 0 then (Inl (validation_error validationErrors), st)
        else case title task of
          Str t \<Rightarrow>
            (case sql_insert now (trim t)
                    (bind (js_or (description task) Null))
                    (bind (js_or (due_date task) Null))
                    (bind (js_or (priority task) (Str ''medium'')))
                    (bind (js_or (status task) (Str ''pending''))) st of
               Inl err \<Rightarrow> (Inl err, st)
             | Inr (lastID, st') \<Rightarrow>
                 (Inr \<lparr> o_task_id = lastID, o_title = title task,
                        o_description = description task, o_due_date = due_date task,
                        o_priority = priority task, o_status = status task,
                        o_created_at = Str iso1, o_updated_at = Str iso2 \<rparr>, st'))
        | _ \<Rightarrow> (Inl TypeError, st))"

subsection \<open>getTask and getAllTasks\<close>










subsection \<open>updateTask and deleteTask\<close>

datatype assignment =
    SetTitle string
  | SetDescription "string option"
  | SetDueDate "string option"
  | SetPriority "string option"
  | SetStatus "string option"
  | SetUpdatedAtCurrentTimestamp

fun assign :: "nat \<Rightarrow> assignment \<Rightarrow> task_row \<Rightarrow> task_row" where
  "assign now (SetTitle v) r = r\<lparr>row_title := v\<rparr>"
| "assign now (SetDescription v) r = r\<lparr>row_description := v\<rparr>"
| "assign now (SetDueDate v) r = r\<lparr>row_due_date := v\<rparr>"
| "assign now (SetPriority v) r = r\<lparr>row_priority := v\<rparr>"
| "assign now (SetStatus v) r = r\<lparr>row_status := v\<rparr>"
| "assign now SetUpdatedAtCurrentTimestamp r = r\<lparr>updated_at := now\<rparr>"

text \<open>
  \<open>UPDATE tasks SET ... WHERE task_id = ?\<close> at the instant \<open>now\<close>: the rows with this
  id take the assignments; a violated \<open>CHECK\<close> aborts the statement; the trigger runs
  for each updated row. The count is \<open>this.changes\<close>, the rows the statement itself
  changed.
\<close>

definition sql_update ::
  "nat \<Rightarrow> assignment list \<Rightarrow> int \<Rightarrow> task_row list \<Rightarrow> error + (nat \<times> task_row list)" where
  "sql_update now sets taskId rs =
     (let new = map (\<lambda>r. if task_id r = taskId then fold (assign now) sets r else r) rs;
          updated = filter (\<lambda>r. task_id r = taskId) new
      in if \<not> list_all row_ok updated then Inl SqliteConstraint
         else Inr (length updated,
                   fold (\<lambda>r. update_tasks_updated_at now (task_id r)) updated new))"

definition title_field :: "jsstr \<Rightarrow> error + assignment list" where
  \<comment> \<open>\<open>if (updates.title !== undefined) { ...; params.push(updates.title.trim()) }\<close>\<close>
  "title_field t = (case t of Undefined \<Rightarrow> Inr []
                            | Str s \<Rightarrow> Inr [SetTitle (trim s)]
                            | Null \<Rightarrow> Inl TypeError)"

definition field_if :: "jsstr \<Rightarrow> (string option \<Rightarrow> assignment) \<Rightarrow> assignment list" where
  \<comment> \<open>\<open>if (updates.x !== undefined) { updateFields.push('x = ?'); params.push(updates.x) }\<close>\<close>
  "field_if v c = (if v \<noteq> Undefined then [c (bind v)] else [])"

record update_result =
  ur_task_id :: int
  changes :: nat

definition updateTask ::
  "(string \<Rightarrow> bool) \<Rightarrow> nat \<Rightarrow> int \<Rightarrow> task_payload \<Rightarrow> task_database
     \<Rightarrow> (error + update_result) \<times> task_database" where
  "updateTask date_ok now taskId updates st =
     (if \<not> isConnected st then (Inl NotConnected, st)
      else let validationErrors = validateTask date_ok updates in
        if length validationErrors > 0 then (Inl (validation_error validationErrors), st)
        else case title_field (title updates) of
          Inl err \<Rightarrow> (Inl err, st)
        | Inr titleField \<Rightarrow>
            (let updateFields = titleField @
                   field_if (description updates) SetDescription @
                   field_if (due_date updates) SetDueDate @
                   field_if (priority updates) SetPriority @
                   field_if (status updates) SetStatus
             in if length updateFields = 0 then (Inl NoValidFields, st)
                else case sql_update now (updateFields @ [SetUpdatedAtCurrentTimestamp])
                            taskId (tasks st) of
                  Inl err \<Rightarrow> (Inl err, st)
                | Inr (n, rs) \<Rightarrow>
                    (if n = 0 then (Inl (NotFound taskId), st\<lparr>tasks := rs\<rparr>)
                     else (Inr \<lparr> ur_task_id = taskId, changes = n \<rparr>, st\<lparr>tasks := rs\<rparr>))))"



subsection \<open>getTaskStats and searchTasks\<close>





definition searchTasks :: "jsstr \<Rightarrow> task_database \<Rightarrow> error + task_row list" where
  "searchTasks searchTerm st =
     (if \<not> isConnected st then Inl NotConnected
      else case searchTerm of
        Str s \<Rightarrow>
          (if s = [] \<or> length (trim s) = 0 then Inl SearchTermRequired
           else let searchPattern = ''%'' @ trim s @ ''%''
                in Inr (order_by_created_at_desc
                         (filter (\<lambda>r. sql_like searchPattern (Some (row_title r))
                                      \<or> sql_like searchPattern (row_description r))
                                 (tasks st))))
      | _ \<Rightarrow> Inl SearchTermRequired)"

section \<open>Sequences of calls\<close>







section \<open>The specification's wording of the rules\<close>

text \<open>
  The title rule as the specification words it: the title fails if it is missing or
  empty after trimming white space, or if its trimmed length exceeds 255.
\<close>

definition title_rule_trimmed :: "jsstr \<Rightarrow> bool" where
  "title_rule_trimmed t =
     (case t of Str s \<Rightarrow> trim s = [] \<or> length (trim s) > 255 | _ \<Rightarrow> True)"

text \<open>The same rule on the length of the title as it was passed.\<close>

definition title_rule_raw :: "jsstr \<Rightarrow> bool" where
  "title_rule_raw t =
     (case t of Str s \<Rightarrow> trim s = [] \<or> length s > 255 | _ \<Rightarrow> True)"

definition title_errors :: "string list \<Rightarrow> bool" where
  "title_errors errs =
     (''Title is required'' \<in> set errs \<or> ''Title must be less than 255 characters'' \<in> set errs)"



text \<open>Rows in descending order of \<open>created_at\<close>.\<close>

definition created_desc :: "task_row list \<Rightarrow> bool" where
  "created_desc rs = sorted_wrt (\<lambda>a b. created_at b \<le> created_at a) rs"

text \<open>\<open>t\<close> occurs in \<open>s\<close> as a run of consecutive characters.\<close>

definition contains :: "string \<Rightarrow> string \<Rightarrow> bool" where
  "contains s t = list_ex (\<lambda>k. take (length t) (drop k s) = t) [0 ..< Suc (length s)]"

text \<open>The same, without regard to the case of the letters A to Z.\<close>

definition contains_nocase :: "string \<Rightarrow> string \<Rightarrow> bool" where
  "contains_nocase s t = contains (map ascii_lower s) (map ascii_lower t)"

definition text_contains :: "string option \<Rightarrow> string \<Rightarrow> bool" where
  "text_contains v t = (case v of None \<Rightarrow> False | Some s \<Rightarrow> contains s t)"

definition text_contains_nocase :: "string option \<Rightarrow> string \<Rightarrow> bool" where
  "text_contains_nocase v t = (case v of None \<Rightarrow> False | Some s \<Rightarrow> contains_nocase s t)"

definition wildcard_free :: "string \<Rightarrow> bool" where
  "wildcard_free t = (CHR ''%'' \<notin> set t \<and> CHR ''_'' \<notin> set t)"

section \<open>Notions used in the proofs\<close>



section \<open>Example data\<close>

text \<open>
  An instance of \<open>date_ok\<close> for the examples: the dates of the form
  \<open>YYYY-MM-DD\<close>, which every \<open>Date.parse\<close> reads.
\<close>

definition is_digit :: "char \<Rightarrow> bool" where
  "is_digit c = (48 \<le> (of_char c :: nat) \<and> (of_char c :: nat) \<le> 57)"

definition iso_date_ok :: "string \<Rightarrow> bool" where
  "iso_date_ok s = (length s = 10 \<and> s ! 4 = CHR ''-'' \<and> s ! 7 = CHR ''-''
                    \<and> list_all is_digit (take 4 s @ take 2 (drop 5 s) @ drop 8 s))"

text \<open>The empty payload \<open>{}\<close>, and the empty filter set.\<close>

definition no_fields :: task_payload where
  "no_fields = \<lparr> title = Undefined, description = Undefined, due_date = Undefined,
                 priority = Undefined, status = Undefined, payload_updated_at = Undefined \<rparr>"


text \<open>\<open>{title: 'Minimal Task'}\<close>, the payload of Test 3 in test.js.\<close>

definition minimal_task :: task_payload where
  "minimal_task = no_fields\<lparr> title := Str ''Minimal Task'' \<rparr>"

text \<open>\<open>{status: 'completed'}\<close>, the update of the README's quick start.\<close>

definition status_only :: task_payload where
  "status_only = no_fields\<lparr> status := Str ''completed'' \<rparr>"

text \<open>A title of 256 characters that is one letter after trimming.\<close>

definition padded_title :: string where
  "padded_title = CHR ''a'' # replicate 255 CHR '' ''"

text \<open>
  \<open>{title: '', priority: 'invalid'}\<close>, the payload of Example 11 in examples.js.
\<close>

definition invalid_task :: task_payload where
  "invalid_task = no_fields\<lparr> title := Str [], priority := Str ''invalid'' \<rparr>"

text \<open>
  The store after \<open>connect()\<close> and \<open>createTask({title: 'Minimal Task'})\<close> at the
  instant 100.
\<close>

definition example_store :: task_database where
  "example_store =
     snd (createTask iso_date_ok 100 ''2025-01-15T09:30:00.000Z'' ''2025-01-15T09:30:00.000Z''
            minimal_task (connect new_database))"

section \<open>Lemmas about the store\<close>


lemma validateTask_Nil_iff:
  "validateTask date_ok task = [] \<longleftrightarrow>
     \<not> title_missing (title task) \<and> \<not> title_too_long (title task)
     \<and> \<not> priority_invalid (priority task) \<and> \<not> status_invalid (status task)
     \<and> \<not> due_date_invalid date_ok (due_date task)"
  by (simp add: validateTask_def)

lemma validated_title:
  "validateTask date_ok task = [] \<Longrightarrow> \<exists>s. title task = Str s \<and> trim s \<noteq> [] \<and> s \<noteq> []"
  by (auto simp: validateTask_Nil_iff title_missing_def split: jsstr.splits)

lemma validated_insert_ok:
  assumes "validateTask date_ok task = []"
  shows "check_priority (bind (js_or (priority task) (Str ''medium'')))"
    and "check_status (bind (js_or (status task) (Str ''pending'')))"
  using assms
  by (auto simp: validateTask_Nil_iff priority_invalid_def status_invalid_def
        check_priority_def check_status_def js_or_def split: jsstr.splits)

lemma sql_update_error:
  "sql_update now sets taskId rs = Inl err \<Longrightarrow> err = SqliteConstraint"
  by (simp add: sql_update_def Let_def split: if_splits)






















section \<open>Lemmas about matching and ordering\<close>

lemma like_percent: "like_match ''%'' s"
  by (induction s) simp_all

lemma like_prefix:
  assumes "wildcard_free t"
  shows "like_match (t @ ''%'') s \<longleftrightarrow>
           length t \<le> length s \<and> map ascii_lower (take (length t) s) = map ascii_lower t"
  using assms
proof (induction t arbitrary: s)
  case Nil
  show ?case using like_percent by simp
next
  case (Cons c t)
  then have wf: "wildcard_free t" and c: "c \<noteq> CHR ''%''" "c \<noteq> CHR ''_''"
    by (auto simp: wildcard_free_def)
  show ?case
  proof (cases s)
    case Nil
    then show ?thesis using c by simp
  next
    case (Cons x xs)
    then show ?thesis using c Cons.IH [OF wf, of xs] by auto
  qed
qed

lemma like_any_run:
  "like_match (CHR ''%'' # ps) s \<longleftrightarrow> (\<exists>k\<le>length s. like_match ps (drop k s))"
proof (induction s)
  case Nil
  show ?case by simp
next
  case (Cons c cs)
  have "(\<exists>k\<le>length (c # cs). like_match ps (drop k (c # cs)))
        \<longleftrightarrow> like_match ps (c # cs) \<or> (\<exists>k\<le>length cs. like_match ps (drop k cs))"
  proof
    assume "\<exists>k\<le>length (c # cs). like_match ps (drop k (c # cs))"
    then obtain k where k: "k \<le> length (c # cs)" "like_match ps (drop k (c # cs))" by blast
    show "like_match ps (c # cs) \<or> (\<exists>k\<le>length cs. like_match ps (drop k cs))"
    proof (cases k)
      case 0
      then show ?thesis using k by simp
    next
      case (Suc k')
      then show ?thesis using k by auto
    qed
  next
    assume "like_match ps (c # cs) \<or> (\<exists>k\<le>length cs. like_match ps (drop k cs))"
    then show "\<exists>k\<le>length (c # cs). like_match ps (drop k (c # cs))"
    proof
      assume "like_match ps (c # cs)"
      then have "0 \<le> length (c # cs) \<and> like_match ps (drop 0 (c # cs))" by simp
      then show ?thesis by blast
    next
      assume "\<exists>k\<le>length cs. like_match ps (drop k cs)"
      then obtain k where "k \<le> length cs" "like_match ps (drop k cs)" by blast
      then have "Suc k \<le> length (c # cs) \<and> like_match ps (drop (Suc k) (c # cs))" by simp
      then show ?thesis by blast
    qed
  qed
  then show ?case using Cons.IH by simp
qed

lemma contains_iff:
  "contains s t \<longleftrightarrow> (\<exists>k\<le>length s. take (length t) (drop k s) = t)"
  unfolding contains_def list_ex_iff
  by (auto simp del: upt_Suc simp add: less_Suc_eq_le)

lemma like_contains:
  assumes "wildcard_free t"
  shows "like_match (''%'' @ t @ ''%'') s = contains_nocase s t"
proof -
  have "like_match (''%'' @ t @ ''%'') s
        \<longleftrightarrow> (\<exists>k\<le>length s. like_match (t @ ''%'') (drop k s))"
    using like_any_run [of "t @ ''%''" s] by simp
  also have "\<dots> \<longleftrightarrow> (\<exists>k\<le>length s. length t \<le> length (drop k s)
                 \<and> map ascii_lower (take (length t) (drop k s)) = map ascii_lower t)"
    using like_prefix [OF assms] by simp
  also have "\<dots> \<longleftrightarrow> (\<exists>k\<le>length s.
                 take (length t) (drop k (map ascii_lower s)) = map ascii_lower t)"
  proof -
    have "length t \<le> length (drop k s)
            \<and> map ascii_lower (take (length t) (drop k s)) = map ascii_lower t
          \<longleftrightarrow> take (length t) (drop k (map ascii_lower s)) = map ascii_lower t" for k
    proof
      assume "length t \<le> length (drop k s)
            \<and> map ascii_lower (take (length t) (drop k s)) = map ascii_lower t"
      then show "take (length t) (drop k (map ascii_lower s)) = map ascii_lower t"
        by (simp add: take_map drop_map)
    next
      assume a: "take (length t) (drop k (map ascii_lower s)) = map ascii_lower t"
      then have "length (take (length t) (drop k (map ascii_lower s))) = length t"
        by simp
      then have "length t \<le> length (drop k s)" by simp
      then show "length t \<le> length (drop k s)
            \<and> map ascii_lower (take (length t) (drop k s)) = map ascii_lower t"
        using a by (simp add: take_map drop_map)
    qed
    then show ?thesis by simp
  qed
  also have "\<dots> \<longleftrightarrow> contains_nocase s t"
    by (simp add: contains_nocase_def contains_iff)
  finally show ?thesis .
qed

lemma order_desc_mset: "mset (order_by_created_at_desc rs) = mset rs"
  by (simp add: order_by_created_at_desc_def)

lemma order_desc_sorted: "created_desc (order_by_created_at_desc rs)"
proof -
  have "sorted (map created_at (sort_key created_at rs))" by simp
  then have "sorted_wrt (\<lambda>a b. created_at a \<le> created_at b) (sort_key created_at rs)"
    by (simp add: sorted_wrt_map)
  then show ?thesis
    by (simp add: created_desc_def order_by_created_at_desc_def sorted_wrt_rev)
qed



section \<open>The example store\<close>

lemma example_store_rows:
  "example_store =
     \<lparr> db_opened = True, isConnected = True,
       tasks = [\<lparr> task_id = 1, row_title = ''Minimal Task'', row_description = None,
                  row_due_date = None, row_priority = Some ''medium'',
                  row_status = Some ''pending'', created_at = 100, updated_at = 100 \<rparr>],
       sqlite_sequence = 1 \<rparr>"
  by (simp add: example_store_def createTask_def connect_def new_database_def minimal_task_def
        no_fields_def validateTask_def title_missing_def title_too_long_def priority_invalid_def
        status_invalid_def due_date_invalid_def trim_def is_ws_def sql_insert_def next_rowid_def
        row_ok_def check_priority_def check_status_def js_or_def)



section \<open>Small facts on the example data\<close>

lemma trim_Nil: "trim [] = []"
  by (simp add: trim_def)

lemma trim_padded_title: "trim padded_title = ''a''"
  unfolding padded_title_def by code_simp

lemma length_padded_title: "length padded_title = 256"
  by (simp add: padded_title_def)

lemma trim_examples:
  "trim '' task '' = ''task''" "trim ''_'' = ''_''" "trim '' '' = []"
  "trim ''Minimal Task'' = ''Minimal Task''"
  by (simp_all add: trim_def is_ws_def)

lemma like_underscore_example: "like_match ''%_%'' ''Minimal Task''"
  by simp

lemma like_task_example: "like_match ''%task%'' ''Minimal Task''"
  by code_simp

lemma not_contains_underscore: "\<not> contains ''Minimal Task'' ''_''"
  by (simp add: contains_def)

lemma validate_minimal_task: "validateTask iso_date_ok minimal_task = []"
  by (simp add: validateTask_def minimal_task_def no_fields_def title_missing_def
        title_too_long_def priority_invalid_def status_invalid_def due_date_invalid_def
        trim_examples)

lemma example_store_connected: "isConnected example_store"
  by (simp add: example_store_rows)

section \<open>The task store: updates\<close>

text \<open>
  C1. The claim: \<open>updateTask\<close> validates only the fields present on the payload, and
  \<open>updateTask(id, {status: "completed"})\<close> succeeds for every existing id. The code:
  \<open>validateTask\<close> asks every payload for a title, so on a connected store the update
  \<open>{status: 'completed'}\<close> of the README's quick start is rejected with
  "Validation failed: Title is required", whatever the id, and the store stays as it was.
\<close>

theorem update_status_only_rejected:
  assumes "isConnected st"
  shows "updateTask date_ok now taskId status_only st
         = (Inl (ValidationFailed ''Validation failed: Title is required''), st)"
  using assms
  by (simp add: updateTask_def validateTask_def title_missing_def title_too_long_def
        priority_invalid_def status_invalid_def due_date_invalid_def validation_error_def
        status_only_def no_fields_def)

text \<open>The rejection on the example store, whose only task has id 1 and status pending.\<close>

theorem update_status_only_rejected_witness:
  "isConnected example_store
   \<and> map task_id (tasks example_store) = [1]
   \<and> updateTask iso_date_ok 200 1 status_only example_store
       = (Inl (ValidationFailed ''Validation failed: Title is required''), example_store)"
  using update_status_only_rejected [OF example_store_connected, of iso_date_ok 200 1]
        example_store_connected
  by (simp add: example_store_rows)

text \<open>
  C8. The branch "No valid fields to update" of \<open>updateTask\<close> cannot be reached: a
  payload on which \<open>validateTask\<close> reports no error has a title that is not empty
  after trimming, so the list of updated columns is never empty, and \<open>updateTask\<close>
  never fails with that message.
\<close>

theorem no_valid_fields_unreachable:
  "(validateTask date_ok updates = [] \<longrightarrow> (\<exists>s. title updates = Str s \<and> trim s \<noteq> []))
   \<and> fst (updateTask date_ok now taskId updates st) \<noteq> Inl NoValidFields"
proof
  show "validateTask date_ok updates = [] \<longrightarrow> (\<exists>s. title updates = Str s \<and> trim s \<noteq> [])"
    using validated_title by blast
next
  show "fst (updateTask date_ok now taskId updates st) \<noteq> Inl NoValidFields"
  proof (cases "validateTask date_ok updates = []")
    case False
    then show ?thesis
      by (simp add: updateTask_def validation_error_def Let_def)
  next
    case True
    then obtain s where "title updates = Str s"
      using validated_title by blast
    then show ?thesis
      by (auto simp: updateTask_def validation_error_def title_field_def Let_def
             split: sum.splits prod.splits dest: sql_update_error)
  qed
qed

text \<open>A payload that passes validation, with its title.\<close>

theorem no_valid_fields_unreachable_witness:
  "validateTask iso_date_ok minimal_task = []
   \<and> title minimal_task = Str ''Minimal Task'' \<and> trim ''Minimal Task'' \<noteq> []
   \<and> fst (updateTask iso_date_ok 200 1 minimal_task example_store) \<noteq> Inl NoValidFields"
  using no_valid_fields_unreachable [of iso_date_ok minimal_task 200 1 example_store]
        validate_minimal_task
  by (simp add: minimal_task_def no_fields_def trim_examples)



section \<open>The task store: creation and validation\<close>

text \<open>
  C2. The claim: for a valid payload \<open>createTask\<close> returns the assigned identifier,
  the trimmed title, and priority "medium" and status "pending" when they were omitted.
  The code: on a connected store a valid payload is inserted, and the object resolved
  carries the new identifier and the two clock readings, but the fields of the payload
  as the caller passed them: the title untrimmed, an omitted priority or status
  \<open>undefined\<close>.
\<close>

theorem createTask_resolves_payload:
  assumes "isConnected st" and "validateTask date_ok task = []"
  shows "fst (createTask date_ok now iso1 iso2 task st) =
           Inr \<lparr> o_task_id = next_rowid st, o_title = title task,
                 o_description = description task, o_due_date = due_date task,
                 o_priority = priority task, o_status = status task,
                 o_created_at = Str iso1, o_updated_at = Str iso2 \<rparr>"
proof -
  obtain s where s: "title task = Str s"
    using validated_title [OF assms(2)] by blast
  show ?thesis
    using assms s validated_insert_ok [OF assms(2)]
    by (simp add: createTask_def sql_insert_def row_ok_def Let_def)
qed

text \<open>
  \<open>createTask({title: 'Minimal Task'})\<close> of Test 3 in test.js, on a new connected
  store: the row stored has priority medium and status pending, the object resolved has
  neither.
\<close>

theorem createTask_resolves_payload_witness:
  "isConnected (connect new_database)
   \<and> validateTask iso_date_ok minimal_task = []
   \<and> fst (createTask iso_date_ok 100 ''2025-01-15T09:30:00.000Z'' ''2025-01-15T09:30:00.000Z''
            minimal_task (connect new_database))
       = Inr \<lparr> o_task_id = 1, o_title = Str ''Minimal Task'', o_description = Undefined,
               o_due_date = Undefined, o_priority = Undefined, o_status = Undefined,
               o_created_at = Str ''2025-01-15T09:30:00.000Z'',
               o_updated_at = Str ''2025-01-15T09:30:00.000Z'' \<rparr>
   \<and> map row_priority (tasks example_store) = [Some ''medium'']
   \<and> map row_status (tasks example_store) = [Some ''pending'']"
proof -
  have c: "isConnected (connect new_database)"
    by (simp add: connect_def)
  have n: "next_rowid (connect new_database) = 1"
    by (simp add: next_rowid_def connect_def new_database_def)
  show ?thesis
    using createTask_resolves_payload [OF c validate_minimal_task, of 100
            "''2025-01-15T09:30:00.000Z''" "''2025-01-15T09:30:00.000Z''"]
          c validate_minimal_task n
    by (simp add: minimal_task_def no_fields_def example_store_rows)
qed

text \<open>
  The claim on the title rule, as stated, fails: a title of one letter followed by 255
  spaces is neither missing, nor empty after trimming, nor longer than 255 after
  trimming, and \<open>validateTask\<close> reports a title error for it.
\<close>

theorem title_rule_trimmed_counterexample:
  "title_errors (validateTask iso_date_ok (no_fields\<lparr>title := Str padded_title\<rparr>))
   \<and> \<not> title_rule_trimmed (title (no_fields\<lparr>title := Str padded_title\<rparr>))"
  by (simp add: title_errors_def validateTask_def title_rule_trimmed_def title_too_long_def
        title_missing_def no_fields_def trim_padded_title length_padded_title)

text \<open>
  C3, amended. Title validation fails exactly when the title is missing or empty after
  trimming white space, or when the length of the title as passed, untrimmed, exceeds
  255. Every rule reports its own message exactly when it is violated (a priority,
  status or due date that is absent, \<open>null\<close> or the empty string violates nothing),
  and \<open>createTask\<close> on a connected store rejects a payload with any violation by one
  error that joins all the messages.
\<close>

theorem validateTask_reports_all_rules:
  "(title_errors (validateTask date_ok task) \<longleftrightarrow> title_rule_raw (title task))
   \<and> (''Title is required'' \<in> set (validateTask date_ok task)
        \<longleftrightarrow> (case title task of Str s \<Rightarrow> trim s = [] | _ \<Rightarrow> True))
   \<and> (''Title must be less than 255 characters'' \<in> set (validateTask date_ok task)
        \<longleftrightarrow> (case title task of Str s \<Rightarrow> length s > 255 | _ \<Rightarrow> False))
   \<and> (''Priority must be high, medium, or low'' \<in> set (validateTask date_ok task)
        \<longleftrightarrow> (\<exists>s. priority task = Str s \<and> s \<noteq> [] \<and> s \<notin> {''high'', ''medium'', ''low''}))
   \<and> (''Status must be pending or completed'' \<in> set (validateTask date_ok task)
        \<longleftrightarrow> (\<exists>s. status task = Str s \<and> s \<noteq> [] \<and> s \<notin> {''pending'', ''completed''}))
   \<and> (''Due date must be a valid date'' \<in> set (validateTask date_ok task)
        \<longleftrightarrow> (\<exists>s. due_date task = Str s \<and> s \<noteq> [] \<and> \<not> date_ok s))
   \<and> (isConnected st \<and> validateTask date_ok task \<noteq> [] \<longrightarrow>
        createTask date_ok now iso1 iso2 task st =
          (Inl (ValidationFailed
                 (''Validation failed: '' @ join '', '' (validateTask date_ok task))), st))"
proof -
  have t1: "''Title is required'' \<in> set (validateTask date_ok task)
        \<longleftrightarrow> (case title task of Str s \<Rightarrow> trim s = [] | _ \<Rightarrow> True)"
    by (auto simp: validateTask_def title_missing_def trim_Nil split: jsstr.splits)
  have t2: "''Title must be less than 255 characters'' \<in> set (validateTask date_ok task)
        \<longleftrightarrow> (case title task of Str s \<Rightarrow> length s > 255 | _ \<Rightarrow> False)"
    by (auto simp: validateTask_def title_too_long_def split: jsstr.splits)
  have t: "title_errors (validateTask date_ok task) \<longleftrightarrow> title_rule_raw (title task)"
    unfolding title_errors_def t1 t2
    by (simp add: title_rule_raw_def split: jsstr.splits)
  have p: "''Priority must be high, medium, or low'' \<in> set (validateTask date_ok task)
        \<longleftrightarrow> (\<exists>s. priority task = Str s \<and> s \<noteq> [] \<and> s \<notin> {''high'', ''medium'', ''low''})"
    by (auto simp: validateTask_def priority_invalid_def split: jsstr.splits)
  have s: "''Status must be pending or completed'' \<in> set (validateTask date_ok task)
        \<longleftrightarrow> (\<exists>s. status task = Str s \<and> s \<noteq> [] \<and> s \<notin> {''pending'', ''completed''})"
    by (auto simp: validateTask_def status_invalid_def split: jsstr.splits)
  have d: "''Due date must be a valid date'' \<in> set (validateTask date_ok task)
        \<longleftrightarrow> (\<exists>s. due_date task = Str s \<and> s \<noteq> [] \<and> \<not> date_ok s)"
    by (auto simp: validateTask_def due_date_invalid_def split: jsstr.splits)
  have c: "isConnected st \<and> validateTask date_ok task \<noteq> [] \<longrightarrow>
        createTask date_ok now iso1 iso2 task st =
          (Inl (ValidationFailed
                 (''Validation failed: '' @ join '', '' (validateTask date_ok task))), st)"
    by (simp add: createTask_def validation_error_def Let_def)
  show ?thesis using t t1 t2 p s d c by blast
qed

text \<open>
  \<open>{title: '', priority: 'invalid'}\<close> violates two rules, and \<open>createTask\<close> names
  both in its one error.
\<close>

theorem validateTask_reports_all_rules_witness:
  "validateTask iso_date_ok invalid_task =
      [''Title is required'', ''Priority must be high, medium, or low'']
   \<and> isConnected example_store
   \<and> createTask iso_date_ok 200 ''a'' ''b'' invalid_task example_store =
      (Inl (ValidationFailed
         ''Validation failed: Title is required, Priority must be high, medium, or low''),
       example_store)"
proof -
  have v: "validateTask iso_date_ok invalid_task =
      [''Title is required'', ''Priority must be high, medium, or low'']"
    by (simp add: validateTask_def invalid_task_def no_fields_def title_missing_def
          title_too_long_def priority_invalid_def status_invalid_def due_date_invalid_def)
  show ?thesis
    using validateTask_reports_all_rules [where date_ok = iso_date_ok and task = invalid_task
        and st = example_store and now = 200 and ?iso1.0 = "''a''" and ?iso2.0 = "''b''"]
      example_store_connected
    by (simp add: v)
qed

section \<open>The task store: statistics\<close>






section \<open>The task store: listing and search\<close>






text \<open>
  The claim on the search, as stated, fails: the term \<open>_\<close> finds the record of the
  example store, whose title "Minimal Task" does not contain \<open>_\<close> and which has no
  description.
\<close>

theorem search_wildcard_counterexample:
  "searchTasks (Str ''_'') example_store = Inr (tasks example_store)
   \<and> map row_title (tasks example_store) = [''Minimal Task'']
   \<and> map row_description (tasks example_store) = [None]
   \<and> \<not> text_contains (Some ''Minimal Task'') ''_''
   \<and> \<not> text_contains None ''_''"
  unfolding example_store_rows
  by (simp add: searchTasks_def trim_examples sql_like_def like_underscore_example
        order_by_created_at_desc_def text_contains_def not_contains_underscore
        del: like_match.simps)

text \<open>
  C7, amended. \<open>searchTasks\<close> fails for every term that is absent, \<open>null\<close> or empty
  after trimming. For every other term, on a connected store, it returns the records
  whose title or description matches the \<open>LIKE\<close> pattern \<open>%term%\<close> made of the
  trimmed term, in descending order of \<open>created_at\<close>, each as often as it is stored;
  in the term \<open>%\<close> and \<open>_\<close> are wildcards. For a trimmed term without \<open>%\<close> and
  \<open>_\<close> these are the records whose title or description contains the term as a
  substring, without regard to the case of the letters A to Z.
\<close>

theorem searchTasks_like:
  "((case searchTerm of Str x \<Rightarrow> trim x = [] | _ \<Rightarrow> True) \<longrightarrow>
       (\<exists>e. searchTasks searchTerm st = Inl e)
       \<and> (isConnected st \<longrightarrow> searchTasks searchTerm st = Inl SearchTermRequired))
   \<and> (isConnected st \<and> trim s \<noteq> [] \<longrightarrow>
       (\<exists>rows. searchTasks (Str s) st = Inr rows
          \<and> created_desc rows
          \<and> mset rows = mset (filter
               (\<lambda>r. sql_like (''%'' @ trim s @ ''%'') (Some (row_title r))
                    \<or> sql_like (''%'' @ trim s @ ''%'') (row_description r)) (tasks st))
          \<and> (wildcard_free (trim s) \<longrightarrow>
               mset rows = mset (filter
                 (\<lambda>r. text_contains_nocase (Some (row_title r)) (trim s)
                      \<or> text_contains_nocase (row_description r) (trim s)) (tasks st)))))"
proof -
  have empty: "(case searchTerm of Str x \<Rightarrow> trim x = [] | _ \<Rightarrow> True) \<longrightarrow>
       (\<exists>e. searchTasks searchTerm st = Inl e)
       \<and> (isConnected st \<longrightarrow> searchTasks searchTerm st = Inl SearchTermRequired)"
    by (auto simp: searchTasks_def split: jsstr.splits)
  have found: "\<exists>rows. searchTasks (Str s) st = Inr rows
          \<and> created_desc rows
          \<and> mset rows = mset (filter
               (\<lambda>r. sql_like (''%'' @ trim s @ ''%'') (Some (row_title r))
                    \<or> sql_like (''%'' @ trim s @ ''%'') (row_description r)) (tasks st))
          \<and> (wildcard_free (trim s) \<longrightarrow>
               mset rows = mset (filter
                 (\<lambda>r. text_contains_nocase (Some (row_title r)) (trim s)
                      \<or> text_contains_nocase (row_description r) (trim s)) (tasks st)))"
    if c: "isConnected st" and t: "trim s \<noteq> []"
  proof -
    define pat where "pat = ''%'' @ trim s @ ''%''"
    define rows where "rows = order_by_created_at_desc (filter
               (\<lambda>r. sql_like pat (Some (row_title r)) \<or> sql_like pat (row_description r))
               (tasks st))"
    have s: "s \<noteq> []" using t by (auto simp: trim_Nil)
    have r: "searchTasks (Str s) st = Inr rows"
      using c t s by (simp add: searchTasks_def rows_def pat_def Let_def)
    have l: "sql_like pat v = text_contains_nocase v (trim s)" if "wildcard_free (trim s)" for v
      using like_contains [OF that]
      by (simp add: sql_like_def text_contains_nocase_def pat_def split: option.splits)
    have "mset rows = mset (filter
               (\<lambda>r. sql_like pat (Some (row_title r)) \<or> sql_like pat (row_description r))
               (tasks st))"
      by (simp add: rows_def order_desc_mset)
    moreover have "created_desc rows"
      by (simp add: rows_def order_desc_sorted)
    moreover have "wildcard_free (trim s) \<longrightarrow>
               mset rows = mset (filter
                 (\<lambda>r. text_contains_nocase (Some (row_title r)) (trim s)
                      \<or> text_contains_nocase (row_description r) (trim s)) (tasks st))"
      using l by (simp add: rows_def order_desc_mset)
    ultimately show ?thesis using r unfolding pat_def by blast
  qed
  show ?thesis using empty found by blast
qed

text \<open>
  On the example store the term " task " finds "Minimal Task", and the term " " is
  refused.
\<close>

theorem searchTasks_like_witness:
  "isConnected example_store \<and> trim '' task '' = ''task'' \<and> wildcard_free ''task''
   \<and> searchTasks (Str '' task '') example_store = Inr (tasks example_store)
   \<and> text_contains_nocase (Some ''Minimal Task'') ''task''
   \<and> searchTasks (Str '' '') example_store = Inl SearchTermRequired"
proof -
  have w: "wildcard_free ''task''" by (simp add: wildcard_free_def)
  have 1: "searchTasks (Str '' task '') example_store = Inr (tasks example_store)"
    unfolding example_store_rows
    by (simp add: searchTasks_def trim_examples sql_like_def like_task_example
        order_by_created_at_desc_def del: like_match.simps)
  have 2: "text_contains_nocase (Some ''Minimal Task'') ''task''"
    using like_contains [OF w, of "''Minimal Task''"] like_task_example
    by (simp add: text_contains_nocase_def)
  from searchTasks_like [where searchTerm = "Str '' ''" and st = example_store and s = "'' task ''"]
  have "searchTasks (Str '' '') example_store = Inl SearchTermRequired"
    using example_store_connected by (simp add: trim_examples)
  then show ?thesis using example_store_connected w 1 2 by (simp add: trim_examples)
qed

section \<open>The sync adapter\<close>

text \<open>
  C10. Status survives the round trip through the two converters: a store record whose
  status is pending or completed comes back from
  \<open>convertToDbFormat (convertToProjectFlowFormat record)\<close> with the same status,
  completed going through "completed" and pending through "todo".
\<close>

theorem status_round_trip:
  assumes "o_status dbTask = Str ''pending'' \<or> o_status dbTask = Str ''completed''"
  shows "status (convertToDbFormat (convertToProjectFlowFormat today_iso dbTask)) = o_status dbTask
     \<and> (o_status dbTask = Str ''completed'' \<longrightarrow>
          pf_status (convertToProjectFlowFormat today_iso dbTask) = Str ''completed'')
     \<and> (o_status dbTask = Str ''pending'' \<longrightarrow>
          pf_status (convertToProjectFlowFormat today_iso dbTask) = Str ''todo'')"
  using assms by (auto simp: convertToDbFormat_def convertToProjectFlowFormat_def)

text \<open>A pending record of the store goes out as "todo" and comes back pending.\<close>

theorem status_round_trip_witness:
  "status (convertToDbFormat (convertToProjectFlowFormat ''2025-01-20T10:00:00.000Z''
      \<lparr> o_task_id = 7, o_title = Str ''Review code'', o_description = Null,
        o_due_date = Str ''2025-01-20'', o_priority = Str ''high'',
        o_status = Str ''pending'', o_created_at = Str ''2025-01-15 09:30:00'',
        o_updated_at = Str ''2025-01-15 09:30:00'' \<rparr>)) = Str ''pending''
   \<and> pf_status (convertToProjectFlowFormat ''2025-01-20T10:00:00.000Z''
      \<lparr> o_task_id = 7, o_title = Str ''Review code'', o_description = Null,
        o_due_date = Str ''2025-01-20'', o_priority = Str ''high'',
        o_status = Str ''pending'', o_created_at = Str ''2025-01-15 09:30:00'',
        o_updated_at = Str ''2025-01-15 09:30:00'' \<rparr>) = Str ''todo''"
  using status_round_trip [of "\<lparr> o_task_id = 7, o_title = Str ''Review code'', o_description = Null,
        o_due_date = Str ''2025-01-20'', o_priority = Str ''high'',
        o_status = Str ''pending'', o_created_at = Str ''2025-01-15 09:30:00'',
        o_updated_at = Str ''2025-01-15 09:30:00'' \<rparr>" "''2025-01-20T10:00:00.000Z''"]
  by simp

end
